theory Spec2Isabelle
  imports Complex_Main "HOL-Library.Word"
begin

unbundle bit_operations_syntax

section \<open>Vocabulary shared by the encoders\<close>

text \<open>
  C++ \<open>unsigned int\<close> and \<open>int\<close> are 32 bits wide. Both are kept as \<open>32 word\<close>:
  arithmetic wraps, \<open><\<close> and \<open>\<le>\<close> on words compare the unsigned values, and a signed
  test such as \<open>bytes_encoded < 0\<close> is written with \<open>sint\<close>. Converting an \<open>int\<close> to
  \<open>unsigned int\<close> keeps the bits, so it is the identity on this type.
\<close>

type_synonym uint = "32 word"
type_synonym cint = "32 word"

text \<open>
  What leaves a function other than through its return value: \<open>throw LibavException()\<close>,
  an exception of \<open>BaseEncoder::CreateCodec\<close> passed on by \<open>throw;\<close>, and the read of
  \<open>coded_frame->key_frame\<close> through a null \<open>coded_frame\<close>.
\<close>

datatype 'e abort = LibavException | Rethrown 'e | NullDereference

text \<open>
  The calls a function makes on its collaborators (logger, libav dictionary,
  \<open>BaseEncoder::CreateCodec\<close>, the libav encode functions, the muxer), in the order it
  makes them. \<open>'p\<close> is the packet handed to the muxer.
\<close>

datatype 'p effect =
    LogError string
  | av_dict_set string string
  | CreateCodec string "(string \<times> string) list"
  | av_dict_free
  | avcodec_encode
  | AddPacket 'p

fun is_CreateCodec :: "'p effect \<Rightarrow> bool" where
  "is_CreateCodec (CreateCodec name opts) = True"
| "is_CreateCodec other = False"

section \<open>VideoEncoder\<close>

record VideoEncoder =
  m_bit_rate :: uint
  m_width :: uint
  m_height :: uint
  m_frame_rate :: uint
  m_temp_buffer :: "8 word list"

text \<open>
  The loop over \<open>codec_options\<close>: one \<open>av_dict_set\<close> per pair, in order. The dictionary
  handed to \<open>CreateCodec\<close> is kept as the list of pairs set so far.
\<close>

fun set_options :: "(string \<times> string) list \<Rightarrow> 'p effect list" where
  "set_options [] = []"
| "set_options ((k, v) # rest) = av_dict_set k v # set_options rest"

text \<open>
  The constructor. \<open>create_codec\<close> stands for \<open>BaseEncoder::CreateCodec\<close> (not part of
  these sources): \<open>Inl e\<close> when it throws \<open>e\<close>, \<open>Inr c\<close> with the opened codec otherwise.
  \<open>FF_MIN_BUFFER_SIZE\<close> is libav's constant, taken as a parameter. The result is the
  trace of calls together with either the abort or the constructed object and its codec.
\<close>

definition VideoEncoder_ctor ::
  "(string \<Rightarrow> (string \<times> string) list \<Rightarrow> 'e + 'c) \<Rightarrow> uint \<Rightarrow>
   string \<Rightarrow> (string \<times> string) list \<Rightarrow> uint \<Rightarrow> uint \<Rightarrow> uint \<Rightarrow> uint \<Rightarrow>
   'p effect list \<times> ('e abort + VideoEncoder \<times> 'c)" where
  "VideoEncoder_ctor create_codec FF_MIN_BUFFER_SIZE codec_name codec_options
      bit_rate width height frame_rate =
    (if width = 0 \<or> height = 0 then
       ([LogError ''[VideoEncoder::Init] Error: Width or height is zero.''],
        Inl LibavException)
     else if width > 10000 \<or> height > 10000 then
       ([LogError ''[VideoEncoder::Init] Error: Width or height is too large, the maximum width and height is 10000.''],
        Inl LibavException)
     else if width mod 2 \<noteq> 0 \<or> height mod 2 \<noteq> 0 then
       ([LogError ''[VideoEncoder::Init] Error: Width or height is not an even number.''],
        Inl LibavException)
     else
       (case create_codec codec_name codec_options of
          Inl e \<Rightarrow>
            (set_options codec_options @ [CreateCodec codec_name codec_options, av_dict_free],
             Inl (Rethrown e))
        | Inr c \<Rightarrow>
            (set_options codec_options @ [CreateCodec codec_name codec_options, av_dict_free],
             Inr (\<lparr> m_bit_rate = bit_rate, m_width = width, m_height = height,
                     m_frame_rate = frame_rate,
                     m_temp_buffer =
                       replicate (unat (max FF_MIN_BUFFER_SIZE (256 * 1024 + width * height * 3))) 0 \<rparr>,
                  c))))"

section \<open>AudioEncoder\<close>

text \<open>
  The two preprocessor switches of \<open>AudioEncoder.cpp\<close>. They are fixed when the program
  is built (from the libav version found); \<open>Global.h\<close>, which sets them, is not part of
  these sources, so every function below takes the configuration as an argument.
\<close>

record build_config =
  SSR_USE_AVCODEC_ENCODE_AUDIO2 :: bool
  SSR_USE_AVFRAME_FORMAT :: bool

text \<open>libav's \<open>enum AVSampleFormat\<close>, and the number \<open>QString::number\<close> prints for each.\<close>

datatype AVSampleFormat =
    AV_SAMPLE_FMT_NONE
  | AV_SAMPLE_FMT_U8
  | AV_SAMPLE_FMT_S16
  | AV_SAMPLE_FMT_S32
  | AV_SAMPLE_FMT_FLT
  | AV_SAMPLE_FMT_DBL
  | AV_SAMPLE_FMT_U8P
  | AV_SAMPLE_FMT_S16P
  | AV_SAMPLE_FMT_S32P
  | AV_SAMPLE_FMT_FLTP
  | AV_SAMPLE_FMT_DBLP

fun format_number :: "AVSampleFormat \<Rightarrow> string" where
  "format_number AV_SAMPLE_FMT_NONE = ''-1''"
| "format_number AV_SAMPLE_FMT_U8 = ''0''"
| "format_number AV_SAMPLE_FMT_S16 = ''1''"
| "format_number AV_SAMPLE_FMT_S32 = ''2''"
| "format_number AV_SAMPLE_FMT_FLT = ''3''"
| "format_number AV_SAMPLE_FMT_DBL = ''4''"
| "format_number AV_SAMPLE_FMT_U8P = ''5''"
| "format_number AV_SAMPLE_FMT_S16P = ''6''"
| "format_number AV_SAMPLE_FMT_S32P = ''7''"
| "format_number AV_SAMPLE_FMT_FLTP = ''8''"
| "format_number AV_SAMPLE_FMT_DBLP = ''9''"

text \<open>The fields of libav's structures that \<open>AudioEncoder.cpp\<close> reads or writes.\<close>

record coded_picture =
  coded_pts :: "64 word"
  key_frame :: cint

text \<open>\<open>capabilities\<close> is \<open>codec->capabilities\<close> of the context's codec.\<close>

record AVCodecContext =
  bit_rate :: cint
  sample_rate :: cint
  channels :: cint
  sample_fmt :: AVSampleFormat
  frame_size :: cint
  capabilities :: cint
  coded_frame :: "coded_picture option"

record AVFrameWrapper =
  format :: AVSampleFormat
  data0 :: "16 word list"

record AVPacketWrapper =
  data :: "8 word list"
  pts :: "64 word"
  flags :: cint

text \<open>
  What the encoder calls in libavcodec and in \<open>AVWrapper.h\<close>, none of it part of these
  sources: the constants, the packet constructors (\<open>new_packet\<close> with no size,
  \<open>new_packet_sized n\<close> with \<open>n\<close> bytes of payload), and the two encode functions.
  \<open>avcodec_encode_audio2 ctx packet frame\<close> gives the return code, \<open>got_packet\<close> and
  the packet as it left it; \<open>avcodec_encode_audio ctx buf samples\<close> gives the return code, the
  output buffer as written, and the codec context afterwards.
\<close>

record libav =
  CODEC_CAP_VARIABLE_FRAME_SIZE :: cint
  AV_NOPTS_VALUE :: "64 word"
  AV_PKT_FLAG_KEY :: cint
  new_packet :: AVPacketWrapper
  new_packet_sized :: "nat \<Rightarrow> AVPacketWrapper"
  avcodec_encode_audio2 ::
    "AVCodecContext \<Rightarrow> AVPacketWrapper \<Rightarrow> AVFrameWrapper option \<Rightarrow>
     cint \<times> cint \<times> AVPacketWrapper"
  avcodec_encode_audio ::
    "AVCodecContext \<Rightarrow> 8 word list \<Rightarrow> 16 word list option \<Rightarrow>
     cint \<times> 8 word list \<times> AVCodecContext"

text \<open>
  The encoder object: its own two members, and the codec context that
  \<open>GetCodecContext()\<close> of the base class returns. (\<open>m_bit_rate\<close> and \<open>m_temp_buffer\<close>
  carry a suffix here because the video encoder's record has fields of the same name.)
\<close>

record AudioEncoder =
  m_bit_rate_audio :: uint
  m_sample_rate :: uint
  m_temp_buffer_audio :: "8 word list"
  codec_context :: AVCodecContext

definition GetRequiredFrameSize :: "build_config \<Rightarrow> libav \<Rightarrow> AudioEncoder \<Rightarrow> uint" where
  "GetRequiredFrameSize cfg lib this =
    (if SSR_USE_AVCODEC_ENCODE_AUDIO2 cfg then
       (if capabilities (codec_context this) AND CODEC_CAP_VARIABLE_FRAME_SIZE lib \<noteq> 0
        then 1024 else frame_size (codec_context this))
     else
       (if frame_size (codec_context this) = 0
        then 1024 else frame_size (codec_context this)))"

definition FillCodecContext :: "AudioEncoder \<Rightarrow> AudioEncoder" where
  "FillCodecContext this =
    this\<lparr> codec_context := (codec_context this)
      \<lparr> bit_rate := m_bit_rate_audio this,
        sample_rate := m_sample_rate this,
        channels := 2,
        sample_fmt := AV_SAMPLE_FMT_S16 \<rparr> \<rparr>"

text \<open>
  \<open>EncodeFrame\<close>; \<open>frame\<close> is \<open>None\<close> for a null pointer. Under the old API the encoded
  bytes are copied out of the temporary buffer (\<open>memcpy\<close> of \<open>bytes_encoded\<close> bytes), the
  timestamp is taken from \<open>coded_frame\<close> when that is not null and carries one, and the
  key flag is read through \<open>coded_frame\<close> without a null test.
\<close>

definition EncodeFrame ::
  "build_config \<Rightarrow> libav \<Rightarrow> AudioEncoder \<Rightarrow> AVFrameWrapper option \<Rightarrow>
   AVPacketWrapper effect list \<times> ('e abort + bool)" where
  "EncodeFrame cfg lib this frame =
    (if SSR_USE_AVCODEC_ENCODE_AUDIO2 cfg then
       (case avcodec_encode_audio2 lib (codec_context this) (new_packet lib) frame of
          (ret, got_packet, packet) \<Rightarrow>
            if sint ret < 0 then
              ([avcodec_encode,
                LogError ''[AudioEncoder::EncodeFrame] Error: Encoding of audio frame failed!''],
               Inl LibavException)
            else if got_packet \<noteq> 0 then ([avcodec_encode, AddPacket packet], Inr True)
            else ([avcodec_encode], Inr False))
     else if SSR_USE_AVFRAME_FORMAT cfg \<and>
             (case frame of None \<Rightarrow> False | Some f \<Rightarrow> format f \<noteq> AV_SAMPLE_FMT_S16) then
       ([LogError (''[AudioEncoder::EncodeFrame] Error: Audio frame uses format ''
                   @ (case frame of None \<Rightarrow> [] | Some f \<Rightarrow> format_number (format f))
                   @ '' instead of '' @ format_number AV_SAMPLE_FMT_S16
                   @ '' (AV_SAMPLE_FMT_S16)!'')],
        Inl LibavException)
     else
       (case avcodec_encode_audio lib (codec_context this) (m_temp_buffer_audio this)
               (map_option data0 frame) of
          (bytes_encoded, buf, ctx) \<Rightarrow>
            if sint bytes_encoded < 0 then
              ([avcodec_encode,
                LogError ''[AudioEncoder::EncodeFrame] Error: Encoding of audio frame failed!''],
               Inl LibavException)
            else if sint bytes_encoded > 0 then
              (let p0 = (new_packet_sized lib (unat bytes_encoded))
                          \<lparr> data := take (unat bytes_encoded) buf \<rparr>;
                   p1 = (case coded_frame ctx of
                           None \<Rightarrow> p0
                         | Some cf \<Rightarrow>
                             if coded_pts cf \<noteq> AV_NOPTS_VALUE lib
                             then p0\<lparr> pts := coded_pts cf \<rparr> else p0)
               in case coded_frame ctx of
                    None \<Rightarrow> ([avcodec_encode], Inl NullDereference)
                  | Some cf \<Rightarrow>
                      ([avcodec_encode,
                        AddPacket (if key_frame cf \<noteq> 0
                                   then p1\<lparr> flags := flags p1 OR AV_PKT_FLAG_KEY lib \<rparr>
                                   else p1)],
                       Inr True))
            else ([avcodec_encode], Inr False)))"

text \<open>
  A concrete libav and a concrete encoder, for evaluating the functions above: an encoder
  library that never produces a packet, and an encoder whose codec reports the given
  capabilities and frame size.
\<close>

definition stub_libav :: libav where
  "stub_libav =
    \<lparr> CODEC_CAP_VARIABLE_FRAME_SIZE = 0x10000,
      AV_NOPTS_VALUE = 0x8000000000000000,
      AV_PKT_FLAG_KEY = 1,
      new_packet = \<lparr> data = [], pts = 0x8000000000000000, flags = 0 \<rparr>,
      new_packet_sized =
        (\<lambda>n. \<lparr> data = replicate n 0, pts = 0x8000000000000000, flags = 0 \<rparr>),
      avcodec_encode_audio2 = (\<lambda>ctx packet frame. (0, 0, packet)),
      avcodec_encode_audio = (\<lambda>ctx buf samples. (0, buf, ctx)) \<rparr>"

definition stub_encoder :: "cint \<Rightarrow> cint \<Rightarrow> AudioEncoder" where
  "stub_encoder caps fsize =
    \<lparr> m_bit_rate_audio = 128000, m_sample_rate = 44100, m_temp_buffer_audio = [],
      codec_context =
        \<lparr> bit_rate = 0, sample_rate = 0, channels = 0, sample_fmt = AV_SAMPLE_FMT_NONE,
          frame_size = fsize, capabilities = caps, coded_frame = None \<rparr> \<rparr>"

definition old_api :: build_config where
  "old_api = \<lparr> SSR_USE_AVCODEC_ENCODE_AUDIO2 = False, SSR_USE_AVFRAME_FORMAT = True \<rparr>"

definition old_api_no_format :: build_config where
  "old_api_no_format = \<lparr> SSR_USE_AVCODEC_ENCODE_AUDIO2 = False, SSR_USE_AVFRAME_FORMAT = False \<rparr>"

definition new_api :: build_config where
  "new_api = \<lparr> SSR_USE_AVCODEC_ENCODE_AUDIO2 = True, SSR_USE_AVFRAME_FORMAT = True \<rparr>"

section \<open>Synchronizer\<close>

text \<open>
  \<open>Synchronizer.h\<close> declares the shared state and the operations; the file that defines
  the operations is not part of these sources. The records below follow the header. The
  header's \<open>int64_t\<close> fields are integers here (\<open>step\<close> below says what becomes of
  an output counter that would leave the range of \<open>int64_t\<close>), its \<open>double\<close> fields
  are reals, and the two buffers hold frames and samples instead of pointers and bytes.
  \<open>m_sync_diagram\<close>, a debugging window, is left out. \<open>m_partial_audio_frame\<close> and
  its sample count are in the record, but no operation below writes them: the spec's
  section 4.2 hands whole frames from the buffer to the encoder and describes no step
  that fills the partial frame.
\<close>

record video_frame =
  frame_timestamp :: int
  frame_data :: nat

type_synonym sample = nat

record SharedData =
  m_partial_audio_frame :: "sample list"
  m_partial_audio_frame_samples :: nat
  m_video_buffer :: "video_frame list"
  m_audio_buffer :: "sample list"
  m_video_pts :: int
  m_audio_samples :: int
  m_time_offset :: int
  m_segment_video_started :: bool
  m_segment_audio_started :: bool
  m_segment_video_start_time :: int
  m_segment_audio_start_time :: int
  m_segment_video_stop_time :: int
  m_segment_audio_stop_time :: int
  m_segment_audio_can_drop :: bool
  m_segment_audio_samples_read :: int
  m_segment_video_last_timestamp :: int
  m_segment_audio_last_timestamp :: int
  m_segment_video_accumulated_delay :: int
  m_av_desync :: real
  m_av_desync_i :: real
  m_last_video_frame_data :: "nat option"
  m_warn_drop_video :: bool
  m_warn_desync :: bool

text \<open>
  A session is the shared state together with what its collaborators have received: the
  warnings written to the logger and the frames handed to the two encoders, one entry
  for each encoder call (\<open>None\<close> in \<open>video_encoded\<close> is a duplicate made when no frame
  had been encoded before).
\<close>

datatype warning = WarnDropVideo | WarnDesync

record session = SharedData +
  logged :: "warning list"
  video_encoded :: "nat option list"
  audio_encoded :: "sample list list"

text \<open>
  The members and static constants of the class that the operations read.
  \<open>m_video_encoder\<close> and \<open>m_audio_encoder\<close> say whether the pointer is non-null. The
  constants' values are in the missing file. \<open>desync_estimator\<close> is the update of the
  PI estimator: from the integral term so far, the measured drift and the time since the
  previous audio block (both in microseconds) it gives the new integral term and the new
  estimate. It is a parameter because the spec states the update twice, differently
  (its sections 4.1 and 4.4).
\<close>

record Synchronizer =
  m_video_encoder :: bool
  m_audio_encoder :: bool
  m_allow_frame_skipping :: bool
  m_video_frame_rate :: nat
  m_audio_sample_rate :: nat
  m_audio_required_frame_size :: nat
  MAX_VIDEO_FRAMES_BUFFERED :: nat
  MAX_AUDIO_SAMPLES_BUFFERED :: nat
  MAX_FRAME_DELAY :: nat
  DESYNC_ERROR_THRESHOLD :: real
  desync_estimator :: "real \<Rightarrow> int \<Rightarrow> int \<Rightarrow> real \<times> real"

text \<open>
  Modelled from the spec: \<open>Synchronizer::InitSegment\<close>, missing from the sources. A new
  segment waits for both streams (a disabled stream counts as started), may still drop
  leading audio, has read no samples and has its drift state zeroed (spec 3, 4.3, 4.4).
  The spec gives no initial value for the times; they are 0 here.
\<close>

definition InitSegment :: "Synchronizer \<Rightarrow> session \<Rightarrow> session" where
  "InitSegment sy s =
    s\<lparr> m_segment_video_started := \<not> m_video_encoder sy,
       m_segment_audio_started := \<not> m_audio_encoder sy,
       m_segment_video_start_time := 0,
       m_segment_audio_start_time := 0,
       m_segment_video_stop_time := 0,
       m_segment_audio_stop_time := 0,
       m_segment_audio_can_drop := True,
       m_segment_audio_samples_read := 0,
       m_segment_video_last_timestamp := 0,
       m_segment_audio_last_timestamp := 0,
       m_segment_video_accumulated_delay := 0,
       m_av_desync := 0,
       m_av_desync_i := 0 \<rparr>"

text \<open>
  Modelled from the spec: \<open>Synchronizer::Init\<close>, missing from the sources. Construction
  creates the first segment (spec 4.3) with empty buffers and the counters and the time
  offset at zero; both warnings may still be raised, nothing has been logged or encoded.
\<close>

definition Init :: "Synchronizer \<Rightarrow> session" where
  "Init sy =
    InitSegment sy
      \<lparr> m_partial_audio_frame = [], m_partial_audio_frame_samples = 0,
        m_video_buffer = [], m_audio_buffer = [],
        m_video_pts = 0, m_audio_samples = 0, m_time_offset = 0,
        m_segment_video_started = False, m_segment_audio_started = False,
        m_segment_video_start_time = 0, m_segment_audio_start_time = 0,
        m_segment_video_stop_time = 0, m_segment_audio_stop_time = 0,
        m_segment_audio_can_drop = True, m_segment_audio_samples_read = 0,
        m_segment_video_last_timestamp = 0, m_segment_audio_last_timestamp = 0,
        m_segment_video_accumulated_delay = 0,
        m_av_desync = 0, m_av_desync_i = 0,
        m_last_video_frame_data = None,
        m_warn_drop_video = True, m_warn_desync = True,
        logged = [], video_encoded = [], audio_encoded = [] \<rparr>"

text \<open>
  Modelled from the spec: step 5 of \<open>Synchronizer::ReadVideoFrame\<close>, missing from the
  sources. ``Enqueue. If queue length exceeds MAX_VIDEO_FRAMES_BUFFERED, drop oldest and
  raise the "drop video" warning once per session.'' The warning is raised only while
  \<open>m_warn_drop_video\<close> is set, and raising it clears the flag.
\<close>

definition enqueue_video :: "Synchronizer \<Rightarrow> video_frame \<Rightarrow> session \<Rightarrow> session" where
  "enqueue_video sy f s =
    (let s1 = s\<lparr> m_video_buffer := m_video_buffer s @ [f] \<rparr>
     in if length (m_video_buffer s1) > MAX_VIDEO_FRAMES_BUFFERED sy then
          (let s2 = s1\<lparr> m_video_buffer := tl (m_video_buffer s1) \<rparr>
           in if m_warn_drop_video s2
              then s2\<lparr> m_warn_drop_video := False, logged := logged s2 @ [WarnDropVideo] \<rparr>
              else s2)
        else s1)"

text \<open>
  Modelled from the spec: step 3 of \<open>Synchronizer::ReadVideoFrame\<close>, missing from the
  sources. A gap of more than two frame periods since the last frame is filled with
  copies of \<open>m_last_video_frame_data\<close> at \<open>last + period\<close>, \<open>last + 2 period\<close>, ... up to
  but not beyond the new timestamp, at most \<open>MAX_FRAME_DELAY\<close> of them. The spec does
  not say how the copies reach the queue; here they are enqueued like any frame. Without
  a last frame there is nothing to copy.
\<close>

fun synthesize :: "Synchronizer \<Rightarrow> nat \<Rightarrow> int \<Rightarrow> int \<Rightarrow> nat \<Rightarrow> session \<Rightarrow> session" where
  "synthesize sy 0 t period d s = s"
| "synthesize sy (Suc n) t period d s =
     synthesize sy n (t + period) period d
       (enqueue_video sy \<lparr> frame_timestamp = t + period, frame_data = d \<rparr> s)"

definition fill_gap :: "Synchronizer \<Rightarrow> int \<Rightarrow> session \<Rightarrow> session" where
  "fill_gap sy timestamp s =
    (let period = 1000000 div int (m_video_frame_rate sy);
         last = m_segment_video_last_timestamp s
     in if timestamp - last > 2 * period then
          (case m_last_video_frame_data s of
             None \<Rightarrow> s
           | Some d \<Rightarrow>
               synthesize sy (min (nat ((timestamp - last) div period)) (MAX_FRAME_DELAY sy))
                 last period d s)
        else s)"

text \<open>
  Modelled from the spec: \<open>Synchronizer::ReadVideoFrame\<close>, missing from the sources
  (spec 4.1, steps 1 to 6). The frame arrives already converted by the scaler. The first
  frame of a segment starts the video stream and has no predecessor, so the late test
  and the gap test apply from the second frame on. The ``segment-init'' that the spec
  runs at the first frame is not described there and changes nothing here.
\<close>

definition ReadVideoFrame :: "Synchronizer \<Rightarrow> int \<Rightarrow> nat \<Rightarrow> session \<Rightarrow> session" where
  "ReadVideoFrame sy timestamp d s =
    (if \<not> m_segment_video_started s then
       (enqueue_video sy \<lparr> frame_timestamp = timestamp, frame_data = d \<rparr>
          (s\<lparr> m_segment_video_start_time := timestamp,
              m_segment_video_stop_time := timestamp,
              m_segment_video_started := True \<rparr>))
         \<lparr> m_segment_video_last_timestamp := timestamp \<rparr>
     else if timestamp < m_segment_video_last_timestamp s then s
     else
       (let s1 = enqueue_video sy \<lparr> frame_timestamp = timestamp, frame_data = d \<rparr>
                   (fill_gap sy timestamp s)
        in s1\<lparr> m_segment_video_last_timestamp := timestamp,
               m_segment_video_stop_time := max (m_segment_video_stop_time s1) timestamp \<rparr>))"

text \<open>
  Modelled from the spec: \<open>Synchronizer::ReadVideoPing\<close>, missing from the sources. It
  ``advances \<open>video_stop_time\<close> without enqueuing''.
\<close>

definition ReadVideoPing :: "int \<Rightarrow> session \<Rightarrow> session" where
  "ReadVideoPing timestamp s =
    s\<lparr> m_segment_video_stop_time := max (m_segment_video_stop_time s) timestamp \<rparr>"

text \<open>
  Modelled from the spec: step 2 of \<open>Synchronizer::ReadAudioSamples\<close>, missing from the
  sources. The estimator is updated from the drift; the estimate is clamped to
  \<open>\<plusminus> DESYNC_ERROR_THRESHOLD\<close>; if it was beyond the threshold the "desync" warning is
  raised, once: only while \<open>m_warn_desync\<close> is set, and raising it clears the flag.
\<close>

definition update_desync :: "Synchronizer \<Rightarrow> int \<Rightarrow> int \<Rightarrow> session \<Rightarrow> session" where
  "update_desync sy drift dt s =
    (case desync_estimator sy (m_av_desync_i s) drift dt of
       (desync_i, desync) \<Rightarrow>
         (let s1 = s\<lparr> m_av_desync_i := desync_i,
                      m_av_desync := max (- DESYNC_ERROR_THRESHOLD sy)
                                       (min (DESYNC_ERROR_THRESHOLD sy) desync) \<rparr>
          in if \<bar>desync\<bar> > DESYNC_ERROR_THRESHOLD sy \<and> m_warn_desync s1
             then s1\<lparr> m_warn_desync := False, logged := logged s1 @ [WarnDesync] \<rparr>
             else s1))"

text \<open>
  Modelled from the spec: steps 4 and 5 of \<open>Synchronizer::ReadAudioSamples\<close>, missing
  from the sources. The samples are appended; what then exceeds
  \<open>MAX_AUDIO_SAMPLES_BUFFERED\<close> is dropped from the head of the buffer and counted in
  \<open>m_segment_audio_samples_read\<close>.
\<close>

definition append_audio :: "Synchronizer \<Rightarrow> sample list \<Rightarrow> session \<Rightarrow> session" where
  "append_audio sy samples s =
    (let buffer = m_audio_buffer s @ samples;
         excess = length buffer - MAX_AUDIO_SAMPLES_BUFFERED sy
     in s\<lparr> m_audio_buffer := drop excess buffer,
           m_segment_audio_samples_read := m_segment_audio_samples_read s + int excess \<rparr>)"

text \<open>
  Modelled from the spec: \<open>Synchronizer::ReadAudioSamples\<close>, missing from the sources
  (spec 4.1, steps 1 to 6). \<open>samples\<close> is what the resampler returned for the block. The
  spec says that the stop time is updated, not to what; as for video, it is raised to
  the timestamp.
\<close>

definition ReadAudioSamples :: "Synchronizer \<Rightarrow> int \<Rightarrow> sample list \<Rightarrow> session \<Rightarrow> session" where
  "ReadAudioSamples sy timestamp samples s =
    (let s1 = (if \<not> m_segment_audio_started s
               then s\<lparr> m_segment_audio_start_time := timestamp,
                       m_segment_audio_stop_time := timestamp,
                       m_segment_audio_started := True \<rparr>
               else s);
         expected = m_segment_audio_start_time s1
                    + m_segment_audio_samples_read s1 * 1000000 div int (m_audio_sample_rate sy);
         s2 = update_desync sy (timestamp - expected)
                (timestamp - m_segment_audio_last_timestamp s1) s1;
         s3 = append_audio sy samples s2
     in s3\<lparr> m_segment_audio_last_timestamp := timestamp,
            m_segment_audio_stop_time := max (m_segment_audio_stop_time s3) timestamp \<rparr>)"

text \<open>
  Modelled from the spec: \<open>Synchronizer::ReadAudioHole\<close>, missing from the sources. While
  leading audio may still be dropped, the hole only means that the worker will realign
  the audio, which it does at its first emission anyway; afterwards \<open>n\<close> samples of
  silence are inserted, \<open>n\<close> being the estimated length of the gap (spec 4.1 and 9 (b)).
\<close>

definition ReadAudioHole :: "Synchronizer \<Rightarrow> nat \<Rightarrow> session \<Rightarrow> session" where
  "ReadAudioHole sy n s =
    (if m_segment_audio_can_drop s then s else append_audio sy (replicate n 0) s)"

text \<open>
  Modelled from the spec: \<open>Synchronizer::GetSegmentStartStop\<close>, missing from the sources.
  The start is the later of the two start times and the stop the earlier of the two
  stop times, ``over the started streams; unstarted streams do not participate''
  (spec 4.2, step 2). The started flag of a disabled stream is always set (spec 3), but
  such a stream receives nothing and has no times, so only a stream that has an encoder
  and has started takes part. With no such stream the window is empty.
\<close>

definition GetSegmentStartStop :: "Synchronizer \<Rightarrow> session \<Rightarrow> int \<times> int" where
  "GetSegmentStartStop sy s =
    (if (m_video_encoder sy \<and> m_segment_video_started s)
        \<and> (m_audio_encoder sy \<and> m_segment_audio_started s) then
       (max (m_segment_video_start_time s) (m_segment_audio_start_time s),
        min (m_segment_video_stop_time s) (m_segment_audio_stop_time s))
     else if m_video_encoder sy \<and> m_segment_video_started s then
       (m_segment_video_start_time s, m_segment_video_stop_time s)
     else if m_audio_encoder sy \<and> m_segment_audio_started s then
       (m_segment_audio_start_time s, m_segment_audio_stop_time s)
     else (0, 0))"

text \<open>
  Modelled from the spec: the output position of a buffered frame (spec 4.2),
  \<open>round((timestamp - video_start_time + time_offset) \<times> frame_rate / 1e6)\<close>, rounding
  to the nearest integer.
\<close>

definition target_pts :: "Synchronizer \<Rightarrow> session \<Rightarrow> video_frame \<Rightarrow> int" where
  "target_pts sy s f =
    (2 * ((frame_timestamp f - m_segment_video_start_time s + m_time_offset s)
          * int (m_video_frame_rate sy)) + 1000000) div 2000000"

text \<open>
  Modelled from the spec: \<open>Synchronizer::FlushVideoBuffer\<close>, missing from the sources
  (spec 4.2). While the head frame is not past the stop time: a frame whose position is
  already behind \<open>m_video_pts\<close> is dropped, or the loop stalls when frame skipping is not
  allowed; a frame more than one position ahead has the previous frame encoded once
  more, at most \<open>MAX_FRAME_DELAY\<close> times in one flush (\<open>dups\<close> counts what is left of
  that); any other frame is encoded and becomes the previous frame. A stall, and a
  frame still ahead when no duplicate is left, end the loop. \<open>m_video_pts\<close> is the
  number of frames handed to the encoder (spec 3), so every encoder call, also one for
  a duplicate, increments it.
\<close>

function FlushVideoBuffer :: "Synchronizer \<Rightarrow> int \<Rightarrow> int \<Rightarrow> nat \<Rightarrow> session \<Rightarrow> session" where
  "FlushVideoBuffer sy segment_start_time segment_stop_time dups s =
    (case m_video_buffer s of
       [] \<Rightarrow> s
     | f # rest \<Rightarrow>
         if frame_timestamp f \<le> segment_stop_time then
           (if target_pts sy s f < m_video_pts s then
              (if m_allow_frame_skipping sy
               then FlushVideoBuffer sy segment_start_time segment_stop_time dups
                      (s\<lparr> m_video_buffer := rest \<rparr>)
               else s)
            else if target_pts sy s f > m_video_pts s + 1 then
              (case dups of
                 0 \<Rightarrow> s
               | Suc d \<Rightarrow>
                   FlushVideoBuffer sy segment_start_time segment_stop_time d
                     (s\<lparr> m_video_pts := m_video_pts s + 1,
                         video_encoded := video_encoded s @ [m_last_video_frame_data s] \<rparr>))
            else
              FlushVideoBuffer sy segment_start_time segment_stop_time dups
                (s\<lparr> m_video_buffer := rest,
                    m_video_pts := m_video_pts s + 1,
                    m_last_video_frame_data := Some (frame_data f),
                    video_encoded := video_encoded s @ [Some (frame_data f)] \<rparr>))
         else s)"
  by pat_completeness auto
termination
  by (relation "measure (\<lambda>(sy, start, stop, dups, s). length (m_video_buffer s) + dups)") auto

declare FlushVideoBuffer.simps [simp del]

text \<open>
  Modelled from the spec: the audio position of a time (spec 3: a buffered sample is
  positioned by the start time and the number of samples before it), and the number of
  buffered samples that lie before a time.
\<close>

definition sample_position :: "Synchronizer \<Rightarrow> session \<Rightarrow> int \<Rightarrow> int" where
  "sample_position sy s t =
    (t - m_segment_audio_start_time s) * int (m_audio_sample_rate sy) div 1000000"

definition samples_before :: "Synchronizer \<Rightarrow> session \<Rightarrow> int \<Rightarrow> nat" where
  "samples_before sy s t =
    min (length (m_audio_buffer s))
        (nat (sample_position sy s t - m_segment_audio_samples_read s))"

text \<open>
  Modelled from the spec: the first bullet of \<open>Synchronizer::FlushAudioBuffer\<close>, missing
  from the sources. The leading samples that lie before the segment's start (the later
  of the two start times once both streams have started) are discarded,
  \<open>m_segment_audio_samples_read\<close> jumps forward by their number, and
  \<open>m_segment_audio_can_drop\<close> is cleared.
\<close>

definition align_audio :: "Synchronizer \<Rightarrow> int \<Rightarrow> session \<Rightarrow> session" where
  "align_audio sy segment_start_time s =
    (let n = samples_before sy s segment_start_time
     in s\<lparr> m_audio_buffer := drop n (m_audio_buffer s),
           m_segment_audio_samples_read := m_segment_audio_samples_read s + int n,
           m_segment_audio_can_drop := False \<rparr>)"

text \<open>
  Modelled from the spec: the second bullet of \<open>Synchronizer::FlushAudioBuffer\<close>, as a
  loop. While the samples inside the window fill a frame, \<open>required_frame_size\<close> samples
  are taken out of the buffer and handed to the audio encoder, and \<open>m_audio_samples\<close>
  grows by \<open>required_frame_size\<close>. These are the words of section 4.2; the partial
  audio frame, whose samples the header and section 3 count in \<open>m_audio_samples\<close> as
  well, has no part in them, so here the counter moves by whole frames only. (For a
  frame size of 0 the spec's loop would not end; \<open>step\<close> below has no next state for
  such a synchronizer.)
\<close>

function emit_audio_frames :: "Synchronizer \<Rightarrow> int \<Rightarrow> session \<Rightarrow> session" where
  "emit_audio_frames sy segment_stop_time s =
    (if 0 < m_audio_required_frame_size sy
        \<and> m_audio_required_frame_size sy \<le> samples_before sy s segment_stop_time
     then emit_audio_frames sy segment_stop_time
            (s\<lparr> m_audio_buffer := drop (m_audio_required_frame_size sy) (m_audio_buffer s),
                m_segment_audio_samples_read :=
                  m_segment_audio_samples_read s + int (m_audio_required_frame_size sy),
                m_audio_samples := m_audio_samples s + int (m_audio_required_frame_size sy),
                audio_encoded :=
                  audio_encoded s @ [take (m_audio_required_frame_size sy) (m_audio_buffer s)] \<rparr>)
     else s)"
  by pat_completeness auto
termination
  by (relation "measure (\<lambda>(sy, stop, s). length (m_audio_buffer s))")
     (auto simp: samples_before_def)

declare emit_audio_frames.simps [simp del]

text \<open>
  Modelled from the spec: \<open>Synchronizer::FlushAudioBuffer\<close>, missing from the sources
  (spec 4.2). When the window holds a frame's worth of samples and leading audio may
  still be dropped, the audio is aligned first; then frames are emitted while the
  window holds enough samples.
\<close>

definition FlushAudioBuffer :: "Synchronizer \<Rightarrow> int \<Rightarrow> int \<Rightarrow> session \<Rightarrow> session" where
  "FlushAudioBuffer sy segment_start_time segment_stop_time s =
    (if m_audio_required_frame_size sy \<le> samples_before sy s segment_stop_time then
       emit_audio_frames sy segment_stop_time
         (if m_segment_audio_can_drop s then align_audio sy segment_start_time s else s)
     else s)"

text \<open>
  Modelled from the spec: \<open>Synchronizer::FlushBuffers\<close>, missing from the sources: both
  buffers are flushed for the window.
\<close>

definition FlushBuffers :: "Synchronizer \<Rightarrow> int \<Rightarrow> int \<Rightarrow> session \<Rightarrow> session" where
  "FlushBuffers sy segment_start_time segment_stop_time s =
    FlushAudioBuffer sy segment_start_time segment_stop_time
      (FlushVideoBuffer sy segment_start_time segment_stop_time (MAX_FRAME_DELAY sy) s)"

text \<open>
  Modelled from the spec: one iteration of \<open>Synchronizer::SynchronizerThread\<close>, missing
  from the sources (spec 4.2, steps 1 to 3): the buffers are flushed when the window is
  longer than the safety margin of one frame period. The encoders are taken to accept
  every frame.
\<close>

definition worker_iteration :: "Synchronizer \<Rightarrow> session \<Rightarrow> session" where
  "worker_iteration sy s =
    (case GetSegmentStartStop sy s of
       (segment_start_time, segment_stop_time) \<Rightarrow>
         if segment_stop_time > segment_start_time + 1000000 div int (m_video_frame_rate sy)
         then FlushBuffers sy segment_start_time segment_stop_time s
         else s)"

text \<open>
  Modelled from the spec: \<open>Synchronizer::NewSegment\<close>, missing from the sources
  (spec 4.3). If neither stream has started it does nothing. Otherwise the segment is
  drained up to the common stop time, its length is added to \<open>m_time_offset\<close>, the
  buffers are cleared and a new segment begins. The padding or truncation of the audio
  at the end of a segment, which the spec's overview mentions and does not describe, is
  left out.
\<close>

definition NewSegment :: "Synchronizer \<Rightarrow> session \<Rightarrow> session" where
  "NewSegment sy s =
    (if \<not> m_segment_video_started s \<and> \<not> m_segment_audio_started s then s
     else
       (case GetSegmentStartStop sy s of
          (segment_start_time, segment_stop_time) \<Rightarrow>
            (let s1 = FlushBuffers sy segment_start_time segment_stop_time s
             in InitSegment sy
                  (s1\<lparr> m_time_offset := m_time_offset s1 + (segment_stop_time - segment_start_time),
                       m_video_buffer := [],
                       m_audio_buffer := [] \<rparr>))))"

text \<open>
  The operations a session goes through, with what the outside supplies to each: the
  timestamp and the converted frame, the timestamp of a ping, the timestamp and the
  resampled block, the estimated length of a hole. \<open>step\<close> applies one operation. A
  synchronizer whose frame rate or sample rate is 0 would divide by zero, and one whose
  audio frame size is 0 would not leave the audio loop: for these there is no next
  state (the operations read the three numbers also when a stream is disabled). Nor is there one when the operation would take \<open>m_video_pts\<close> or
  \<open>m_audio_samples\<close> to \<open>2^63\<close> or beyond: the header keeps them in \<open>int64_t\<close>, and
  signed overflow is undefined. \<open>run\<close> applies a sequence of operations and has a
  result when every step has one.
\<close>

datatype operation =
    VideoFrame int nat
  | VideoPing int
  | AudioSamples int "sample list"
  | AudioHole nat
  | Worker
  | Segment

fun apply_operation :: "Synchronizer \<Rightarrow> operation \<Rightarrow> session \<Rightarrow> session" where
  "apply_operation sy (VideoFrame timestamp d) s = ReadVideoFrame sy timestamp d s"
| "apply_operation sy (VideoPing timestamp) s = ReadVideoPing timestamp s"
| "apply_operation sy (AudioSamples timestamp samples) s = ReadAudioSamples sy timestamp samples s"
| "apply_operation sy (AudioHole n) s = ReadAudioHole sy n s"
| "apply_operation sy Worker s = worker_iteration sy s"
| "apply_operation sy Segment s = NewSegment sy s"

definition step :: "Synchronizer \<Rightarrow> operation \<Rightarrow> session \<Rightarrow> session option" where
  "step sy operation s =
    (if m_video_frame_rate sy = 0 \<or> m_audio_sample_rate sy = 0
        \<or> m_audio_required_frame_size sy = 0
     then None
     else if m_video_pts (apply_operation sy operation s) < 2 ^ 63
             \<and> m_audio_samples (apply_operation sy operation s) < 2 ^ 63
     then Some (apply_operation sy operation s)
     else None)"

fun run :: "Synchronizer \<Rightarrow> operation list \<Rightarrow> session \<Rightarrow> session option" where
  "run sy [] s = Some s"
| "run sy (operation # rest) s =
     (case step sy operation s of None \<Rightarrow> None | Some s1 \<Rightarrow> run sy rest s1)"

text \<open>
  A concrete synchronizer for evaluating runs: 25 frames per second, 1000 samples per
  second in frames of 2, room for 2 frames and 8 samples, a threshold of 1 for the
  estimate, and the estimator of the spec's section 4.4 with gains 0.3 and 0.05.
\<close>

definition small_synchronizer :: Synchronizer where
  "small_synchronizer =
    \<lparr> m_video_encoder = True, m_audio_encoder = True, m_allow_frame_skipping = True,
      m_video_frame_rate = 25, m_audio_sample_rate = 1000, m_audio_required_frame_size = 2,
      MAX_VIDEO_FRAMES_BUFFERED = 2, MAX_AUDIO_SAMPLES_BUFFERED = 8, MAX_FRAME_DELAY = 10,
      DESYNC_ERROR_THRESHOLD = 1,
      desync_estimator =
        (\<lambda>desync_i drift dt.
           (desync_i + 0.05 * (real_of_int drift / 1000000) * (real_of_int dt / 1000000),
            desync_i + 0.05 * (real_of_int drift / 1000000) * (real_of_int dt / 1000000)
              + 0.3 * (real_of_int drift / 1000000))) \<rparr>"

text \<open>
  A session for evaluation: the video buffer overflows three times and the drift
  estimate leaves the threshold twice.
\<close>

definition overflowing_session :: "operation list" where
  "overflowing_session =
    [VideoFrame 0 1, VideoFrame 40000 2, VideoFrame 80000 3, VideoFrame 120000 4,
     VideoFrame 160000 5, AudioSamples 0 [1, 2], AudioSamples 5000000 [1, 2],
     AudioSamples 9000000 [1, 2]]"

text \<open>
  The invariant behind the warnings: a warning that may still be raised has not been
  logged, and one that may no longer be raised has been logged at most once.
  \<open>same_warnings\<close> relates two states with the same log and the same two flags.
\<close>

definition latched :: "session \<Rightarrow> bool" where
  "latched s \<longleftrightarrow>
     count_list (logged s) WarnDropVideo \<le> (if m_warn_drop_video s then 0 else 1)
     \<and> count_list (logged s) WarnDesync \<le> (if m_warn_desync s then 0 else 1)"

definition same_warnings :: "session \<Rightarrow> session \<Rightarrow> bool" where
  "same_warnings s s' \<longleftrightarrow>
     logged s' = logged s \<and> m_warn_drop_video s' = m_warn_drop_video s
     \<and> m_warn_desync s' = m_warn_desync s"

section \<open>Properties of VideoEncoder\<close>

lemma uint_zero_iff: "unat (w :: uint) = 0 \<longleftrightarrow> w = 0"
  by (simp add: unat_eq_0)

lemma uint_gt_10000_iff: "10000 < unat (w :: uint) \<longleftrightarrow> w > 10000"
  by (simp add: word_less_nat_alt)

lemma uint_odd_iff: "odd (unat (w :: uint)) \<longleftrightarrow> w mod 2 \<noteq> 0"
  by (simp add: unat_mod odd_iff_mod_2_eq_one flip: unat_eq_0)

text \<open>
  C9. The constructor throws \<open>LibavException\<close> without having called \<open>CreateCodec\<close>
  whenever the width or the height is zero, above 10000, or odd. For every other width
  and height nothing is logged and \<open>CreateCodec\<close> is called, with the codec name and
  the options given, after the options have been put into the dictionary.
\<close>

theorem VideoEncoder_ctor_validates_size:
  "(let r = (VideoEncoder_ctor cc ff name opts br width height fr
              :: 'p effect list \<times> ('e abort + VideoEncoder \<times> 'c))
    in if unat width = 0 \<or> unat height = 0 \<or> 10000 < unat width \<or> 10000 < unat height
          \<or> odd (unat width) \<or> odd (unat height)
       then snd r = Inl LibavException \<and> \<not> list_ex is_CreateCodec (fst r)
       else fst r = set_options opts @ [CreateCodec name opts, av_dict_free])"
  unfolding uint_zero_iff uint_gt_10000_iff uint_odd_iff
  by (simp add: VideoEncoder_ctor_def Let_def split: sum.split)

theorem VideoEncoder_ctor_validates_size_witness:
  "snd (VideoEncoder_ctor (\<lambda>n os. Inr ()) 16384 ''libx264'' [(''crf'', ''23'')] 5000 0 480 30
        :: unit effect list \<times> (unit abort + VideoEncoder \<times> unit)) = Inl LibavException
   \<and> snd (VideoEncoder_ctor (\<lambda>n os. Inr ()) 16384 ''libx264'' [(''crf'', ''23'')] 5000 640 10002 30
        :: unit effect list \<times> (unit abort + VideoEncoder \<times> unit)) = Inl LibavException
   \<and> snd (VideoEncoder_ctor (\<lambda>n os. Inr ()) 16384 ''libx264'' [(''crf'', ''23'')] 5000 641 480 30
        :: unit effect list \<times> (unit abort + VideoEncoder \<times> unit)) = Inl LibavException
   \<and> fst (VideoEncoder_ctor (\<lambda>n os. Inr ()) 16384 ''libx264'' [(''crf'', ''23'')] 5000 640 480 30
        :: unit effect list \<times> (unit abort + VideoEncoder \<times> unit))
      = [av_dict_set ''crf'' ''23'', CreateCodec ''libx264'' [(''crf'', ''23'')], av_dict_free]"
  using
    VideoEncoder_ctor_validates_size
      [where ?'p = unit and ?'e = unit and ?'c = unit and cc = "\<lambda>n os. Inr ()"
         and ff = 16384 and name = "''libx264''" and opts = "[(''crf'', ''23'')]"
         and br = 5000 and fr = 30 and width = 0 and height = 480]
    VideoEncoder_ctor_validates_size
      [where ?'p = unit and ?'e = unit and ?'c = unit and cc = "\<lambda>n os. Inr ()"
         and ff = 16384 and name = "''libx264''" and opts = "[(''crf'', ''23'')]"
         and br = 5000 and fr = 30 and width = 640 and height = 10002]
    VideoEncoder_ctor_validates_size
      [where ?'p = unit and ?'e = unit and ?'c = unit and cc = "\<lambda>n os. Inr ()"
         and ff = 16384 and name = "''libx264''" and opts = "[(''crf'', ''23'')]"
         and br = 5000 and fr = 30 and width = 641 and height = 480]
    VideoEncoder_ctor_validates_size
      [where ?'p = unit and ?'e = unit and ?'c = unit and cc = "\<lambda>n os. Inr ()"
         and ff = 16384 and name = "''libx264''" and opts = "[(''crf'', ''23'')]"
         and br = 5000 and fr = 30 and width = 640 and height = 480]
  by (simp add: Let_def)

section \<open>Properties of AudioEncoder\<close>

lemma FillCodecContext_fixed:
  "channels (codec_context (FillCodecContext this)) = 2
   \<and> sample_fmt (codec_context (FillCodecContext this)) = AV_SAMPLE_FMT_S16"
  by (simp add: FillCodecContext_def)

lemma GetRequiredFrameSize_old:
  "\<not> SSR_USE_AVCODEC_ENCODE_AUDIO2 cfg \<Longrightarrow>
   0 < unat (GetRequiredFrameSize cfg lib this)
   \<and> (frame_size (codec_context this) = 0 \<longrightarrow> GetRequiredFrameSize cfg lib this = 1024)
   \<and> (frame_size (codec_context this) \<noteq> 0 \<longrightarrow>
        GetRequiredFrameSize cfg lib this = frame_size (codec_context this))"
  by (simp add: GetRequiredFrameSize_def unat_gt_0)

lemma GetRequiredFrameSize_new:
  "SSR_USE_AVCODEC_ENCODE_AUDIO2 cfg \<Longrightarrow>
   (capabilities (codec_context this) AND CODEC_CAP_VARIABLE_FRAME_SIZE lib \<noteq> 0
      \<longrightarrow> GetRequiredFrameSize cfg lib this = 1024)
   \<and> (capabilities (codec_context this) AND CODEC_CAP_VARIABLE_FRAME_SIZE lib = 0
      \<longrightarrow> GetRequiredFrameSize cfg lib this = frame_size (codec_context this))
   \<and> (0 < unat (GetRequiredFrameSize cfg lib this) \<longleftrightarrow>
        capabilities (codec_context this) AND CODEC_CAP_VARIABLE_FRAME_SIZE lib \<noteq> 0
        \<or> frame_size (codec_context this) \<noteq> 0)"
  by (simp add: GetRequiredFrameSize_def unat_gt_0)

lemma EncodeFrame_format_check:
  "\<not> SSR_USE_AVCODEC_ENCODE_AUDIO2 cfg \<Longrightarrow> SSR_USE_AVFRAME_FORMAT cfg \<Longrightarrow>
   format f \<noteq> AV_SAMPLE_FMT_S16 \<Longrightarrow>
   snd (EncodeFrame cfg lib this (Some f)) = Inl LibavException
   \<and> avcodec_encode \<notin> set (fst (EncodeFrame cfg lib this (Some f)))"
  by (simp add: EncodeFrame_def)

text \<open>
  C10, as the code has it. \<open>FillCodecContext\<close> sets 2 channels and
  \<open>AV_SAMPLE_FMT_S16\<close> whatever the encoder's members and the context were. Built for the
  old encode API, \<open>GetRequiredFrameSize\<close> is never zero: it is 1024 when the context's
  frame size is zero and the context's frame size otherwise. Built for the new API, it
  is 1024 when the codec has the variable-frame-size capability and the context's frame
  size otherwise, so it is nonzero exactly when the codec has that capability or the
  context's frame size is nonzero. Built for the old API with
  \<open>SSR_USE_AVFRAME_FORMAT\<close>, \<open>EncodeFrame\<close> of a non-null frame whose format is not
  \<open>AV_SAMPLE_FMT_S16\<close> throws \<open>LibavException\<close> before the encoder is called.
\<close>

theorem AudioEncoder_format_and_frame_size:
  "channels (codec_context (FillCodecContext this)) = 2
   \<and> sample_fmt (codec_context (FillCodecContext this)) = AV_SAMPLE_FMT_S16
   \<and> (\<not> SSR_USE_AVCODEC_ENCODE_AUDIO2 cfg \<longrightarrow>
        0 < unat (GetRequiredFrameSize cfg lib this)
        \<and> (frame_size (codec_context this) = 0 \<longrightarrow> GetRequiredFrameSize cfg lib this = 1024)
        \<and> (frame_size (codec_context this) \<noteq> 0 \<longrightarrow>
             GetRequiredFrameSize cfg lib this = frame_size (codec_context this)))
   \<and> (SSR_USE_AVCODEC_ENCODE_AUDIO2 cfg \<longrightarrow>
        (capabilities (codec_context this) AND CODEC_CAP_VARIABLE_FRAME_SIZE lib \<noteq> 0
           \<longrightarrow> GetRequiredFrameSize cfg lib this = 1024)
        \<and> (capabilities (codec_context this) AND CODEC_CAP_VARIABLE_FRAME_SIZE lib = 0
           \<longrightarrow> GetRequiredFrameSize cfg lib this = frame_size (codec_context this))
        \<and> (0 < unat (GetRequiredFrameSize cfg lib this) \<longleftrightarrow>
             capabilities (codec_context this) AND CODEC_CAP_VARIABLE_FRAME_SIZE lib \<noteq> 0
             \<or> frame_size (codec_context this) \<noteq> 0))
   \<and> (\<not> SSR_USE_AVCODEC_ENCODE_AUDIO2 cfg \<and> SSR_USE_AVFRAME_FORMAT cfg
        \<and> format f \<noteq> AV_SAMPLE_FMT_S16 \<longrightarrow>
        snd (EncodeFrame cfg lib this (Some f) :: AVPacketWrapper effect list \<times> ('e abort + bool))
          = Inl LibavException
        \<and> avcodec_encode
            \<notin> set (fst (EncodeFrame cfg lib this (Some f)
                         :: AVPacketWrapper effect list \<times> ('e abort + bool))))"
  using FillCodecContext_fixed [of this] GetRequiredFrameSize_old [of cfg lib this]
    GetRequiredFrameSize_new [of cfg this lib]
    EncodeFrame_format_check [of cfg f lib this]
  by blast

theorem AudioEncoder_format_and_frame_size_witness:
  "channels (codec_context (FillCodecContext (stub_encoder 0 0))) = 2
   \<and> sample_fmt (codec_context (FillCodecContext (stub_encoder 0 0))) = AV_SAMPLE_FMT_S16
   \<and> GetRequiredFrameSize old_api stub_libav (stub_encoder 0 0) = 1024
   \<and> GetRequiredFrameSize old_api stub_libav (stub_encoder 0 1152) = 1152
   \<and> GetRequiredFrameSize new_api stub_libav (stub_encoder 0x10000 0) = 1024
   \<and> GetRequiredFrameSize new_api stub_libav (stub_encoder 0 1152) = 1152
   \<and> 0 < unat (GetRequiredFrameSize new_api stub_libav (stub_encoder 0 1152))
   \<and> snd (EncodeFrame old_api stub_libav (stub_encoder 0 0)
             (Some \<lparr> format = AV_SAMPLE_FMT_FLT, data0 = [] \<rparr>)
           :: AVPacketWrapper effect list \<times> (unit abort + bool)) = Inl LibavException"
  using
    AudioEncoder_format_and_frame_size
      [where ?'e = unit and this = "stub_encoder 0 0" and cfg = old_api and lib = stub_libav
         and f = "\<lparr> format = AV_SAMPLE_FMT_FLT, data0 = [] \<rparr>"]
    AudioEncoder_format_and_frame_size
      [where ?'e = unit and this = "stub_encoder 0 1152" and cfg = old_api and lib = stub_libav
         and f = "\<lparr> format = AV_SAMPLE_FMT_FLT, data0 = [] \<rparr>"]
    AudioEncoder_format_and_frame_size
      [where ?'e = unit and this = "stub_encoder 0x10000 0" and cfg = new_api
         and lib = stub_libav and f = "\<lparr> format = AV_SAMPLE_FMT_FLT, data0 = [] \<rparr>"]
    AudioEncoder_format_and_frame_size
      [where ?'e = unit and this = "stub_encoder 0 1152" and cfg = new_api
         and lib = stub_libav and f = "\<lparr> format = AV_SAMPLE_FMT_FLT, data0 = [] \<rparr>"]
  by (simp add: old_api_def new_api_def stub_libav_def stub_encoder_def)

text \<open>
  C10 as it was stated fails twice. Built for the new API, a codec without the
  variable-frame-size capability whose context has frame size 0 gets the required frame
  size 0. Built for the old API without \<open>SSR_USE_AVFRAME_FORMAT\<close>, a frame in
  \<open>AV_SAMPLE_FMT_FLT\<close> is handed to the encoder and \<open>EncodeFrame\<close> returns \<open>false\<close>.
\<close>

theorem AudioEncoder_claim_counterexample:
  "unat (GetRequiredFrameSize new_api stub_libav (stub_encoder 0 0)) = 0
   \<and> (EncodeFrame old_api_no_format stub_libav (stub_encoder 0 0)
         (Some \<lparr> format = AV_SAMPLE_FMT_FLT, data0 = [] \<rparr>)
       :: AVPacketWrapper effect list \<times> (unit abort + bool))
      = ([avcodec_encode], Inr False)"
  by (simp add: GetRequiredFrameSize_def EncodeFrame_def new_api_def old_api_no_format_def
      stub_libav_def stub_encoder_def)

section \<open>Properties of the Synchronizer\<close>

subsection \<open>Steps and runs\<close>

lemma step_Some: "step sy operation s = Some s1 \<Longrightarrow> s1 = apply_operation sy operation s"
  by (auto simp: step_def split: if_splits)

subsection \<open>The warnings\<close>

lemma same_warnings_latched: "same_warnings s s' \<Longrightarrow> latched s \<Longrightarrow> latched s'"
  by (simp add: same_warnings_def latched_def)

lemma enqueue_video_latched: "latched s \<Longrightarrow> latched (enqueue_video sy f s)"
  by (auto simp: enqueue_video_def latched_def Let_def split: if_splits)

lemma synthesize_latched: "latched s \<Longrightarrow> latched (synthesize sy n t period d s)"
  by (induction n arbitrary: t s) (simp_all add: enqueue_video_latched)

lemma fill_gap_latched: "latched s \<Longrightarrow> latched (fill_gap sy t s)"
  by (simp add: fill_gap_def Let_def synthesize_latched split: option.split)

lemma latched_update:
  "latched s \<Longrightarrow> logged s' = logged s \<Longrightarrow> m_warn_drop_video s' = m_warn_drop_video s \<Longrightarrow>
   m_warn_desync s' = m_warn_desync s \<Longrightarrow> latched s'"
  by (simp add: latched_def)

lemma ReadVideoFrame_latched: "latched s \<Longrightarrow> latched (ReadVideoFrame sy t d s)"
proof -
  assume l: "latched s"
  let ?f = "\<lparr> frame_timestamp = t, frame_data = d \<rparr>"
  have a: "latched (enqueue_video sy ?f
             (s\<lparr> m_segment_video_start_time := t, m_segment_video_stop_time := t,
                 m_segment_video_started := True \<rparr>))"
    by (rule enqueue_video_latched) (rule latched_update [OF l], simp_all)
  have b: "latched (enqueue_video sy ?f (fill_gap sy t s))"
    by (rule enqueue_video_latched) (rule fill_gap_latched [OF l])
  show ?thesis
    unfolding ReadVideoFrame_def Let_def
    using l latched_update [OF a] latched_update [OF b]
    by simp
qed

lemma ReadVideoPing_latched: "latched s \<Longrightarrow> latched (ReadVideoPing t s)"
  by (simp add: ReadVideoPing_def latched_def)

lemma update_desync_latched: "latched s \<Longrightarrow> latched (update_desync sy drift dt s)"
  by (auto simp: update_desync_def latched_def Let_def split: prod.split if_splits)

lemma append_audio_latched: "latched s \<Longrightarrow> latched (append_audio sy xs s)"
  by (simp add: append_audio_def latched_def Let_def)

lemma ReadAudioSamples_latched: "latched s \<Longrightarrow> latched (ReadAudioSamples sy t xs s)"
proof -
  assume l: "latched s"
  have a: "latched s1 \<Longrightarrow>
     latched (append_audio sy xs (update_desync sy drift dt s1))" for s1 drift dt
    by (intro append_audio_latched update_desync_latched)
  have b: "latched (s\<lparr> m_segment_audio_start_time := t, m_segment_audio_stop_time := t,
                       m_segment_audio_started := True \<rparr>)"
    by (rule latched_update [OF l]) simp_all
  show ?thesis
    unfolding ReadAudioSamples_def Let_def
    using latched_update [OF a [OF l]] latched_update [OF a [OF b]]
    by simp
qed

lemma ReadAudioHole_latched: "latched s \<Longrightarrow> latched (ReadAudioHole sy n s)"
  by (simp add: ReadAudioHole_def append_audio_latched)

lemma FlushVideoBuffer_warnings: "same_warnings s (FlushVideoBuffer sy a b dups s)"
proof (induction sy a b dups s rule: FlushVideoBuffer.induct)
  case (1 sy a b dups s)
  show ?case
  proof (cases "m_video_buffer s")
    case Nil
    then show ?thesis by (subst FlushVideoBuffer.simps) (simp add: same_warnings_def)
  next
    case (Cons f rest)
    show ?thesis
      using 1 [OF Cons] Cons
      by (subst FlushVideoBuffer.simps) (auto simp: same_warnings_def split: nat.splits)
  qed
qed

lemma emit_audio_frames_warnings: "same_warnings s (emit_audio_frames sy b s)"
proof (induction sy b s rule: emit_audio_frames.induct)
  case (1 sy b s)
  then show ?case
    by (subst emit_audio_frames.simps) (auto simp: same_warnings_def)
qed

lemma FlushBuffers_warnings: "same_warnings s (FlushBuffers sy a b s)"
  using FlushVideoBuffer_warnings [of s sy a b "MAX_FRAME_DELAY sy"]
    emit_audio_frames_warnings [of "FlushVideoBuffer sy a b (MAX_FRAME_DELAY sy) s" sy b]
    emit_audio_frames_warnings
      [of "align_audio sy a (FlushVideoBuffer sy a b (MAX_FRAME_DELAY sy) s)" sy b]
  by (simp add: FlushBuffers_def FlushAudioBuffer_def align_audio_def Let_def same_warnings_def)

lemma worker_iteration_latched: "latched s \<Longrightarrow> latched (worker_iteration sy s)"
  using same_warnings_latched [OF FlushBuffers_warnings]
  by (simp add: worker_iteration_def split: prod.split)

lemma NewSegment_latched: "latched s \<Longrightarrow> latched (NewSegment sy s)"
proof -
  assume l: "latched s"
  have "latched (FlushBuffers sy a b s)" for a b
    using same_warnings_latched [OF FlushBuffers_warnings l] .
  from latched_update [OF this] l show ?thesis
    by (simp add: NewSegment_def InitSegment_def Let_def split: prod.split)
qed

lemma apply_operation_latched: "latched s \<Longrightarrow> latched (apply_operation sy operation s)"
  by (cases operation)
     (simp_all add: ReadVideoFrame_latched ReadVideoPing_latched ReadAudioSamples_latched
        ReadAudioHole_latched worker_iteration_latched NewSegment_latched)

lemma run_latched: "run sy ops s = Some s' \<Longrightarrow> latched s \<Longrightarrow> latched s'"
proof (induction ops arbitrary: s)
  case Nil
  then show ?case by simp
next
  case (Cons operation rest)
  from Cons.prems(1) obtain s1 where s1: "step sy operation s = Some s1"
    and r: "run sy rest s1 = Some s'"
    by (auto split: option.splits)
  from s1 have "s1 = apply_operation sy operation s"
    by (rule step_Some)
  with apply_operation_latched [OF Cons.prems(2)] have "latched s1" by simp
  with Cons.IH [OF r] show ?case .
qed

lemma Init_latched: "latched (Init sy)"
  by (simp add: Init_def InitSegment_def latched_def)

text \<open>
  C8. In every session, from construction on and whatever operations follow, the logger
  has received the "drop video" warning at most once and the "desync" warning at most
  once.
\<close>

theorem warnings_at_most_once:
  "run sy ops (Init sy) = Some s \<Longrightarrow>
   count_list (logged s) WarnDropVideo \<le> 1 \<and> count_list (logged s) WarnDesync \<le> 1"
  using run_latched [of sy ops "Init sy" s, OF _ Init_latched]
  by (auto simp: latched_def split: if_splits)

theorem warnings_at_most_once_witness:
  "\<exists>s. run small_synchronizer overflowing_session (Init small_synchronizer) = Some s
       \<and> count_list (logged s) WarnDropVideo \<le> 1 \<and> count_list (logged s) WarnDesync \<le> 1
       \<and> logged s = [WarnDropVideo, WarnDesync]"
proof -
  have "map_option logged
          (run small_synchronizer overflowing_session (Init small_synchronizer))
        = Some [WarnDropVideo, WarnDesync]"
    by code_simp
  then obtain s where r: "run small_synchronizer overflowing_session (Init small_synchronizer) = Some s"
    and l: "logged s = [WarnDropVideo, WarnDesync]"
    by auto
  from warnings_at_most_once [OF r] r l show ?thesis
    by blast
qed

end
